theory Spec2Isabelle
  imports Complex_Main "HOL-Library.Word" "HOL-Library.Sublist"
begin

section \<open>Python values, errors and files\<close>

text \<open>
  The generator of \<^verbatim>\<open>src/app.py\<close> keeps its configuration in a Python dictionary
  whose values are numbers, strings, sequences and nested dictionaries. Dictionaries are
  maps from keys to values; Python floats are modelled by exact rationals.
\<close>

datatype pyval =
    PNone
  | PBool bool
  | PInt int
  | PFloat rat
  | PStr string
  | PList "pyval list"
  | PTuple "pyval list"
  | PDict "string \<Rightarrow> pyval option"

type_synonym pydict = "string \<Rightarrow> pyval option"

text \<open>
  Every exception the modelled code can raise is a value. \<open>CvError\<close> stands for
  OpenCV's \<^verbatim>\<open>cv2.error\<close>, \<open>JSONDecodeError\<close> for a file that is not a JSON text.
\<close>

datatype error =
    KeyError string
  | ValueError string
  | TypeError
  | IndexError
  | JSONDecodeError
  | IsADirectoryError
  | OSError string
  | CvError

type_synonym u8 = "8 word"

text \<open>
  A numpy image of shape \<open>(rows, cols, 3)\<close> with 8-bit channels: the shape and the flat
  row-major buffer.
\<close>

record image =
  im_rows :: nat
  im_cols :: nat
  im_buf :: "u8 list"

text \<open>
  What a \<^verbatim>\<open>cv2.VideoWriter\<close> has been given: the frame rate and the frame size
  \<open>(width, height)\<close> it was opened with, and the frames passed to \<^verbatim>\<open>write\<close>, in order.
\<close>

record segment =
  seg_fps :: rat
  seg_size :: "int \<times> int"
  seg_frames :: "image list"

text \<open>A decoded audio clip: its samples, at the reader's fixed sample rate.\<close>

type_synonym audio = "rat list"

text \<open>
  What \<^verbatim>\<open>write_videofile\<close> is handed: the video clips of the timeline in order
  and the tracks of the composite audio clip.
\<close>

record movie =
  mv_clips :: "segment list"
  mv_tracks :: "audio list"

text \<open>
  The file system maps a path to what is stored there. \<open>JsonFile v\<close> is a regular file
  whose text \<^verbatim>\<open>json.load\<close> parses to \<open>v\<close>; \<open>OtherFile\<close> is a regular file of any
  other content.
\<close>

datatype entry =
    Directory
  | JsonFile pyval
  | VideoFile segment
  | AudioFile audio
  | MovieFile movie
  | OtherFile

type_synonym filesystem = "string \<Rightarrow> entry option"

section \<open>Configuration loading\<close>

definition default_config :: pydict where
  "default_config =
     [''resolution'' \<mapsto> PTuple [PInt 1280, PInt 720],
      ''fps'' \<mapsto> PInt 24,
      ''chart_types'' \<mapsto> PList [PStr ''line'', PStr ''bar'', PStr ''scatter''],
      ''colors'' \<mapsto> PDict [''title_bg'' \<mapsto> PStr ''#2c3e50'',
                            ''chart_bg'' \<mapsto> PStr ''#ecf0f1'',
                            ''text'' \<mapsto> PStr ''#ffffff''],
      ''voice'' \<mapsto> PDict [''rate'' \<mapsto> PInt 150,
                           ''volume'' \<mapsto> PFloat 1,
                           ''voice_id'' \<mapsto> PStr ''english'']]"

text \<open>
  \<^verbatim>\<open>_load_config\<close>: the defaults unless \<^verbatim>\<open>config_path\<close> is a non-empty string naming
  an existing path; then the loaded dictionary is laid over the defaults key by key at
  the top level (\<^verbatim>\<open>{**default_config, **json.load(f)}\<close>). Opening a directory, a text
  that is not JSON, and a JSON value that is not an object raise.
\<close>

definition load_config :: "filesystem \<Rightarrow> string option \<Rightarrow> error + pydict" where
  "load_config fs config_path =
     (case config_path of
        None \<Rightarrow> Inr default_config
      | Some p \<Rightarrow>
          if p \<noteq> [] \<and> fs p \<noteq> None then
            (case fs p of
               Some Directory \<Rightarrow> Inl IsADirectoryError
             | Some (JsonFile (PDict d)) \<Rightarrow> Inr (default_config ++ d)
             | Some (JsonFile _) \<Rightarrow> Inl TypeError
             | _ \<Rightarrow> Inl JSONDecodeError)
          else Inr default_config)"

section \<open>Reading the configuration\<close>

text \<open>\<^verbatim>\<open>d[k]\<close> on a dictionary raises \<^verbatim>\<open>KeyError\<close> for a missing key.\<close>

definition dict_get :: "pydict \<Rightarrow> string \<Rightarrow> error + pyval" where
  "dict_get d k = (case d k of None \<Rightarrow> Inl (KeyError k) | Some v \<Rightarrow> Inr v)"

text \<open>\<^verbatim>\<open>v[k]\<close> with a string key: only a dictionary can be subscripted so.\<close>

definition subscript_key :: "pyval \<Rightarrow> string \<Rightarrow> error + pyval" where
  "subscript_key v k = (case v of PDict d \<Rightarrow> dict_get d k | _ \<Rightarrow> Inl TypeError)"

text \<open>
  \<^verbatim>\<open>v[i]\<close> with a non-negative integer index: sequences and strings are indexed,
  a dictionary (whose keys are strings) has no such key, anything else is not
  subscriptable.
\<close>

definition subscript_index :: "pyval \<Rightarrow> nat \<Rightarrow> error + pyval" where
  "subscript_index v i =
     (case v of
        PList xs \<Rightarrow> if i < length xs then Inr (xs ! i) else Inl IndexError
      | PTuple xs \<Rightarrow> if i < length xs then Inr (xs ! i) else Inl IndexError
      | PStr s \<Rightarrow> if i < length s then Inr (PStr [s ! i]) else Inl IndexError
      | PDict d \<Rightarrow> Inl (KeyError [])
      | _ \<Rightarrow> Inl TypeError)"

text \<open>
  \<^verbatim>\<open>a, b = v\<close>: exactly two items are needed. A dictionary would unpack to two of
  its keys, which are strings and are refused as frame dimensions by every later use; the
  model raises at the unpacking.
\<close>

definition unpack2 :: "pyval \<Rightarrow> error + pyval \<times> pyval" where
  "unpack2 v =
     (case v of
        PList xs \<Rightarrow>
          (case xs of [a, b] \<Rightarrow> Inr (a, b) | _ \<Rightarrow> Inl (ValueError ''unpack''))
      | PTuple xs \<Rightarrow>
          (case xs of [a, b] \<Rightarrow> Inr (a, b) | _ \<Rightarrow> Inl (ValueError ''unpack''))
      | PStr s \<Rightarrow>
          (case s of [a, b] \<Rightarrow> Inr (PStr [a], PStr [b]) | _ \<Rightarrow> Inl (ValueError ''unpack''))
      | _ \<Rightarrow> Inl TypeError)"

text \<open>OpenCV takes an integer argument only from a Python \<^verbatim>\<open>int\<close>.\<close>

definition as_int :: "pyval \<Rightarrow> int option" where
  "as_int v = (case v of PInt i \<Rightarrow> Some i | _ \<Rightarrow> None)"

text \<open>OpenCV takes a floating-point argument from a Python \<^verbatim>\<open>int\<close> or \<^verbatim>\<open>float\<close>.\<close>

definition as_number :: "pyval \<Rightarrow> rat option" where
  "as_number v = (case v of PInt i \<Rightarrow> Some (of_int i) | PFloat x \<Rightarrow> Some x | _ \<Rightarrow> None)"

text \<open>A numpy dimension: an integer (a \<^verbatim>\<open>bool\<close> counts as 0 or 1).\<close>

definition as_index :: "pyval \<Rightarrow> int option" where
  "as_index v =
     (case v of PInt i \<Rightarrow> Some i | PBool b \<Rightarrow> Some (if b then 1 else 0) | _ \<Rightarrow> None)"

text \<open>\<^verbatim>\<open>int(x)\<close> of a float truncates towards zero.\<close>

definition py_int :: "rat \<Rightarrow> int" where
  "py_int x = (if 0 \<le> x then \<lfloor>x\<rfloor> else \<lceil>x\<rceil>)"

text \<open>\<^verbatim>\<open>s[:k]\<close>: a negative \<open>k\<close> counts from the end.\<close>

definition slice_to :: "'a list \<Rightarrow> int \<Rightarrow> 'a list" where
  "slice_to s k = (if 0 \<le> k then take (nat k) s else take (length s - nat (- k)) s)"

text \<open>\<^verbatim>\<open>os.path.join(a, b)\<close> for a relative \<open>b\<close>.\<close>

definition path_join :: "string \<Rightarrow> string \<Rightarrow> string" where
  "path_join a b = (if a = [] then b else if last a = CHR ''/'' then a @ b else a @ ''/'' @ b)"

section \<open>External collaborators\<close>

text \<open>
  The drawing libraries are parameters of the model. \<open>to_rgb\<close> parses a colour into
  three channel intensities; \<open>put_text\<close> gives the buffer after \<^verbatim>\<open>cv2.putText\<close> has
  drawn a string at a position with a scale, a colour and a thickness; \<open>canvas_rgb\<close> is
  the RGB raster of a drawn figure; \<open>resample\<close> gives the buffer \<^verbatim>\<open>cv2.resize\<close>
  computes for a target \<open>(width, height)\<close>.
\<close>

datatype mark =
    LinePlot "rat list" "rat list"
  | BarPlot "rat list" "rat list"
  | ScatterPlot "rat list" "rat list"

record figure =
  fig_facecolor :: pyval
  fig_marks :: "mark list"
  fig_xlim :: "(rat \<times> rat) option"
  fig_ylim :: "(rat \<times> rat) option"
  fig_labels :: "string list"

record collaborators =
  to_rgb :: "pyval \<Rightarrow> error + rat \<times> rat \<times> rat"
  put_text :: "image \<Rightarrow> string \<Rightarrow> int \<times> int \<Rightarrow> rat \<Rightarrow> int \<times> int \<times> int \<Rightarrow> int \<Rightarrow> u8 list"
  canvas_rgb :: "figure \<Rightarrow> image"
  resample :: "image \<Rightarrow> nat \<times> nat \<Rightarrow> u8 list"

text \<open>\<^verbatim>\<open>cv2.putText\<close> draws in place: the shape of the image stays.\<close>

definition cv2_putText ::
  "collaborators \<Rightarrow> image \<Rightarrow> string \<Rightarrow> int \<times> int \<Rightarrow> rat \<Rightarrow> int \<times> int \<times> int \<Rightarrow> int \<Rightarrow> image" where
  "cv2_putText c img text org fontScale color thickness =
     img\<lparr>im_buf := put_text c img text org fontScale color thickness\<rparr>"

text \<open>
  \<^verbatim>\<open>cv2.resize(img, (width, height))\<close>: the result has \<open>height\<close> rows and \<open>width\<close>
  columns; an empty source or a target size that is not positive is refused.
\<close>

definition cv2_resize :: "collaborators \<Rightarrow> image \<Rightarrow> int \<times> int \<Rightarrow> error + image" where
  "cv2_resize c img dsize =
     (case dsize of
        (w, h) \<Rightarrow>
          if w \<le> 0 \<or> h \<le> 0 \<or> im_rows img = 0 \<or> im_cols img = 0 then Inl CvError
          else Inr \<lparr>im_rows = nat h, im_cols = nat w,
                    im_buf = resample c img (nat w, nat h)\<rparr>)"

text \<open>\<^verbatim>\<open>cv2.cvtColor(img, cv2.COLOR_RGB2BGR)\<close> swaps the first and third channel.\<close>

fun swap_rb :: "u8 list \<Rightarrow> u8 list" where
  "swap_rb (r # g # b # rest) = b # g # r # swap_rb rest"
| "swap_rb xs = xs"

text \<open>
  \<^verbatim>\<open>cv2.VideoWriter(path, fourcc, fps, (width, height))\<close>: a writer with no frame yet.
\<close>

definition VideoWriter :: "pyval \<Rightarrow> pyval \<times> pyval \<Rightarrow> error + segment" where
  "VideoWriter fps frameSize =
     (case (as_number fps, as_int (fst frameSize), as_int (snd frameSize)) of
        (Some f, Some w, Some h) \<Rightarrow> Inr \<lparr>seg_fps = f, seg_size = (w, h), seg_frames = []\<rparr>
      | _ \<Rightarrow> Inl TypeError)"

definition writer_write :: "segment \<Rightarrow> image \<Rightarrow> segment" where
  "writer_write out img = out\<lparr>seg_frames := seg_frames out @ [img]\<rparr>"

section \<open>Transition between frames\<close>

text \<open>\<^verbatim>\<open>cvRound\<close> rounds to the nearest integer, a half to the even one.\<close>

definition cvRound :: "rat \<Rightarrow> int" where
  "cvRound x =
     (let f = \<lfloor>x\<rfloor>; d = x - of_int f
      in if d < 1 / 2 then f else if 1 / 2 < d then f + 1 else if even f then f else f + 1)"

definition saturate_u8 :: "int \<Rightarrow> u8" where
  "saturate_u8 v = word_of_int (max 0 (min 255 v))"

definition blend :: "rat \<Rightarrow> rat \<Rightarrow> rat \<Rightarrow> u8 \<Rightarrow> u8 \<Rightarrow> u8" where
  "blend alpha beta gamma p q =
     saturate_u8 (cvRound (of_nat (unat p) * alpha + of_nat (unat q) * beta + gamma))"

text \<open>
  \<^verbatim>\<open>cv2.addWeighted(src1, alpha, src2, beta, gamma)\<close>: per channel value
  \<open>src1 * alpha + src2 * beta + gamma\<close>, rounded and saturated to 8 bits; arrays of
  different sizes are refused.
\<close>

definition addWeighted :: "image \<Rightarrow> rat \<Rightarrow> image \<Rightarrow> rat \<Rightarrow> rat \<Rightarrow> error + image" where
  "addWeighted src1 alpha src2 beta gamma =
     (if im_rows src1 = im_rows src2 \<and> im_cols src1 = im_cols src2
         \<and> length (im_buf src1) = length (im_buf src2)
      then Inr (src1\<lparr>im_buf := map2 (blend alpha beta gamma) (im_buf src1) (im_buf src2)\<rparr>)
      else Inl CvError)"

definition transition_alpha :: "int \<Rightarrow> rat" where
  "transition_alpha frame_num = min 1 (of_int frame_num / 10)"

text \<open>\<^verbatim>\<open>_apply_transition\<close>.\<close>

definition apply_transition :: "image \<Rightarrow> int \<Rightarrow> error + image" where
  "apply_transition img frame_num =
     (let alpha = transition_alpha frame_num
      in addWeighted img alpha img (1 - alpha) 0)"

section \<open>Chart animation\<close>

definition is_str :: "pyval \<Rightarrow> bool" where
  "is_str v = (case v of PStr _ \<Rightarrow> True | _ \<Rightarrow> False)"

text \<open>
  \<^verbatim>\<open>s in v\<close> for a string \<open>s\<close>: membership in a sequence, key membership in a
  dictionary, substring test in a string; other values are not iterable.
\<close>

definition py_in :: "string \<Rightarrow> pyval \<Rightarrow> error + bool" where
  "py_in s v =
     (case v of
        PList xs \<Rightarrow> Inr (PStr s \<in> set xs)
      | PTuple xs \<Rightarrow> Inr (PStr s \<in> set xs)
      | PDict d \<Rightarrow> Inr (d s \<noteq> None)
      | PStr t \<Rightarrow> Inr (sublist s t)
      | _ \<Rightarrow> Inl TypeError)"

text \<open>\<^verbatim>\<open>', '.join(v)\<close> needs every item of a sequence to be a string.\<close>

definition joinable :: "pyval \<Rightarrow> bool" where
  "joinable v =
     (case v of PList xs \<Rightarrow> list_all is_str xs | PTuple xs \<Rightarrow> list_all is_str xs | _ \<Rightarrow> True)"

text \<open>
  \<^verbatim>\<open>_validate_chart_type\<close>. The \<^verbatim>\<open>ValueError\<close> carries the fixed head of the
  source's message; the list of valid types that follows it is left out.
\<close>

definition validate_chart_type :: "pydict \<Rightarrow> string \<Rightarrow> error + unit" where
  "validate_chart_type config chart_type =
     (case dict_get config ''chart_types'' of
        Inl e \<Rightarrow> Inl e
      | Inr valid_types \<Rightarrow>
          (case py_in chart_type valid_types of
             Inl e \<Rightarrow> Inl e
           | Inr found \<Rightarrow>
               if \<not> found then
                 (if joinable valid_types then Inl (ValueError ''Invalid chart type'')
                  else Inl TypeError)
               else Inr ()))"

text \<open>\<^verbatim>\<open>_create_chart_figure\<close>: an empty figure with the configured background.\<close>

definition create_chart_figure :: "pydict \<Rightarrow> error + figure" where
  "create_chart_figure config =
     (case dict_get config ''colors'' of
        Inl e \<Rightarrow> Inl e
      | Inr colors \<Rightarrow>
          (case subscript_key colors ''chart_bg'' of
             Inl e \<Rightarrow> Inl e
           | Inr bg \<Rightarrow>
               Inr \<lparr>fig_facecolor = bg, fig_marks = [], fig_xlim = None, fig_ylim = None,
                    fig_labels = []\<rparr>))"

definition list_min :: "rat list \<Rightarrow> rat" where
  "list_min xs = fold min (tl xs) (hd xs)"

definition list_max :: "rat list \<Rightarrow> rat" where
  "list_max xs = fold max (tl xs) (hd xs)"

text \<open>
  What the plotting calls accept: a line and a scatter plot need as many \<open>x\<close> as \<open>y\<close>;
  a bar plot broadcasts a single value against the other sequence.
\<close>

definition drawable :: "string \<Rightarrow> nat \<Rightarrow> nat \<Rightarrow> bool" where
  "drawable chart_type n m =
     (if chart_type = ''line'' then n = m
      else if chart_type = ''bar'' then n = m \<or> n = 1 \<or> m = 1
      else if chart_type = ''scatter'' then n = m
      else True)"

text \<open>
  \<^verbatim>\<open>_plot_data\<close>: the mark of the chart type (none for any other type), then the axis
  limits from the minimum and maximum of the data window, which raise on an empty
  window.
\<close>

definition plot_data :: "figure \<Rightarrow> rat list \<Rightarrow> rat list \<Rightarrow> string \<Rightarrow> error + figure" where
  "plot_data ax x y chart_type =
     (if \<not> drawable chart_type (length x) (length y) then Inl (ValueError ''shape mismatch'')
      else if x = [] \<or> y = [] then Inl (ValueError ''min() arg is an empty sequence'')
      else Inr (ax\<lparr>fig_marks := fig_marks ax @
                     (if chart_type = ''line'' then [LinePlot x y]
                      else if chart_type = ''bar'' then [BarPlot x y]
                      else if chart_type = ''scatter'' then [ScatterPlot x y]
                      else []),
                   fig_xlim := Some (list_min x - 1, list_max x + 1),
                   fig_ylim := Some (list_min y * (9 / 10), list_max y * (11 / 10)),
                   fig_labels := [''Year'', ''Value'', ''Economic Trends'']\<rparr>))"

text \<open>\<^verbatim>\<open>_figure_to_image\<close>: the canvas raster with its channels in OpenCV's order.\<close>

definition figure_to_image :: "collaborators \<Rightarrow> figure \<Rightarrow> image" where
  "figure_to_image c fig = (let img = canvas_rgb c fig in img\<lparr>im_buf := swap_rb (im_buf img)\<rparr>)"

text \<open>
  The first four statements of the loop body of \<^verbatim>\<open>generate_chart_animation\<close>: a
  fresh figure, the data window \<open>(x, y)\<close> plotted on it, its raster, resized to
  \<open>(width, height)\<close>.
\<close>

definition render_window ::
  "collaborators \<Rightarrow> pydict \<Rightarrow> string \<Rightarrow> int \<times> int \<Rightarrow> rat list \<Rightarrow> rat list \<Rightarrow> error + image" where
  "render_window c config chart_type dsize x y =
     (case create_chart_figure config of
        Inl e \<Rightarrow> Inl e
      | Inr ax \<Rightarrow>
          (case plot_data ax x y chart_type of
             Inl e \<Rightarrow> Inl e
           | Inr fig \<Rightarrow> cv2_resize c (figure_to_image c fig) dsize))"

text \<open>
  The loop body up to the frame it writes: the window is the first \<open>frame\<close> points
  (\<^verbatim>\<open>years[:frame]\<close>, \<^verbatim>\<open>values[:frame]\<close>), and the transition is applied from the
  second frame on.
\<close>

definition chart_frame ::
  "collaborators \<Rightarrow> pydict \<Rightarrow> rat list \<Rightarrow> rat list \<Rightarrow> string \<Rightarrow> int \<times> int \<Rightarrow> nat
     \<Rightarrow> error + image" where
  "chart_frame c config years values chart_type dsize frame =
     (case render_window c config chart_type dsize (take frame years) (take frame values) of
        Inl e \<Rightarrow> Inl e
      | Inr img \<Rightarrow> if 1 < frame then apply_transition img (int frame) else Inr img)"

text \<open>
  A loop that writes one frame per index: it stops at the first frame that raises, with
  the frames written so far in the writer.
\<close>

fun write_frames ::
  "(nat \<Rightarrow> error + image) \<Rightarrow> nat list \<Rightarrow> segment \<Rightarrow> error option \<times> segment" where
  "write_frames body [] out = (None, out)"
| "write_frames body (i # rest) out =
     (case body i of
        Inl e \<Rightarrow> (Some e, out)
      | Inr img \<Rightarrow> write_frames body rest (writer_write out img))"

type_synonym chart_data = "string \<Rightarrow> rat list option"

text \<open>
  \<^verbatim>\<open>generate_chart_animation\<close>. The result is the returned path or the exception,
  with the file system after the call: the animation file holds what the writer was
  given, also when a frame raised.
\<close>

definition generate_chart_animation ::
  "collaborators \<Rightarrow> pydict \<Rightarrow> filesystem \<Rightarrow> chart_data \<Rightarrow> string \<Rightarrow> string
     \<Rightarrow> (error + string) \<times> filesystem" where
  "generate_chart_animation c config fs data output_path chart_type =
     (case validate_chart_type config chart_type of
        Inl e \<Rightarrow> (Inl e, fs)
      | Inr _ \<Rightarrow>
     (case data ''years'' of
        None \<Rightarrow> (Inl (KeyError ''years''), fs)
      | Some years \<Rightarrow>
     (case data ''values'' of
        None \<Rightarrow> (Inl (KeyError ''values''), fs)
      | Some values \<Rightarrow>
     (case dict_get config ''resolution'' of
        Inl e \<Rightarrow> (Inl e, fs)
      | Inr res \<Rightarrow>
     (case unpack2 res of
        Inl e \<Rightarrow> (Inl e, fs)
      | Inr (height, width) \<Rightarrow>
     (case dict_get config ''fps'' of
        Inl e \<Rightarrow> (Inl e, fs)
      | Inr fps \<Rightarrow>
     (let animation_path = path_join output_path ''chart_animation.mp4'' in
      case VideoWriter fps (width, height) of
        Inl e \<Rightarrow> (Inl e, fs)
      | Inr out \<Rightarrow>
          (case write_frames (chart_frame c config years values chart_type (seg_size out))
                  [1..<length years + 1] out of
             (Some e, out') \<Rightarrow> (Inl e, fs(animation_path \<mapsto> VideoFile out'))
           | (None, out') \<Rightarrow> (Inr animation_path, fs(animation_path \<mapsto> VideoFile out'))))))))))"

section \<open>Title screen\<close>

text \<open>\<^verbatim>\<open>np.zeros((rows, cols, 3), dtype=np.uint8)\<close>.\<close>

definition np_zeros :: "pyval \<Rightarrow> pyval \<Rightarrow> error + image" where
  "np_zeros r c =
     (case (as_index r, as_index c) of
        (Some rr, Some cc) \<Rightarrow>
          if rr < 0 \<or> cc < 0 then Inl (ValueError ''negative dimensions'')
          else Inr \<lparr>im_rows = nat rr, im_cols = nat cc,
                    im_buf = replicate (nat rr * nat cc * 3) 0\<rparr>
      | _ \<Rightarrow> Inl TypeError)"

text \<open>\<^verbatim>\<open>frame[:, :] = pixel\<close>: every pixel gets the three channel values.\<close>

definition fill :: "image \<Rightarrow> u8 list \<Rightarrow> image" where
  "fill frame pixel = frame\<lparr>im_buf := concat (replicate (im_rows frame * im_cols frame) pixel)\<rparr>"

text \<open>\<^verbatim>\<open>int(frame_num / 3)\<close>, the number of title characters requested at a frame.\<close>

definition text_offset :: "int \<Rightarrow> int" where
  "text_offset frame_num = py_int (of_int frame_num / 3)"

text \<open>\<^verbatim>\<open>title[:text_offset]\<close>, the part of the title drawn at a frame.\<close>

definition visible_title :: "string \<Rightarrow> int \<Rightarrow> string" where
  "visible_title title frame_num = slice_to title (text_offset frame_num)"

text \<open>\<^verbatim>\<open>_create_animated_frame\<close>.\<close>

definition create_animated_frame ::
  "collaborators \<Rightarrow> pydict \<Rightarrow> int \<Rightarrow> string \<Rightarrow> string \<Rightarrow> error + image" where
  "create_animated_frame c config frame_num title description =
     (case dict_get config ''resolution'' of
        Inl e \<Rightarrow> Inl e
      | Inr res \<Rightarrow>
     (case subscript_index res 1 of
        Inl e \<Rightarrow> Inl e
      | Inr res1 \<Rightarrow>
     (case subscript_index res 0 of
        Inl e \<Rightarrow> Inl e
      | Inr res0 \<Rightarrow>
     (case np_zeros res1 res0 of
        Inl e \<Rightarrow> Inl e
      | Inr frame0 \<Rightarrow>
     (case dict_get config ''colors'' of
        Inl e \<Rightarrow> Inl e
      | Inr colors \<Rightarrow>
     (case subscript_key colors ''title_bg'' of
        Inl e \<Rightarrow> Inl e
      | Inr bg \<Rightarrow>
     (case to_rgb c bg of
        Inl e \<Rightarrow> Inl e
      | Inr (r, g, b) \<Rightarrow>
          (let frame1 = fill frame0 [word_of_int (py_int (r * 255)),
                                     word_of_int (py_int (g * 255)),
                                     word_of_int (py_int (b * 255))];
               frame2 = cv2_putText c frame1 (visible_title title frame_num) (100, 200) 2
                          (255, 255, 255) 3
           in if 15 < frame_num then
                (let alpha = min 1 (of_int (frame_num - 15) / 30);
                     v = py_int (255 * alpha)
                 in Inr (cv2_putText c frame2 description (100, 300) (4 / 5) (v, v, v) 2))
              else Inr frame2))))))))"

text \<open>\<^verbatim>\<open>range(3 * fps)\<close>: only an integer gives a range.\<close>

definition title_range :: "pyval \<Rightarrow> error + nat list" where
  "title_range fps =
     (case fps of
        PInt f \<Rightarrow> Inr [0..<nat (3 * f)]
      | PBool b \<Rightarrow> Inr [0..<(if b then 3 else 0)]
      | _ \<Rightarrow> Inl TypeError)"

text \<open>\<^verbatim>\<open>create_title_screen\<close>.\<close>

definition create_title_screen ::
  "collaborators \<Rightarrow> pydict \<Rightarrow> filesystem \<Rightarrow> string \<Rightarrow> string \<Rightarrow> string
     \<Rightarrow> (error + string) \<times> filesystem" where
  "create_title_screen c config fs title description output_path =
     (case dict_get config ''resolution'' of
        Inl e \<Rightarrow> (Inl e, fs)
      | Inr res \<Rightarrow>
     (case unpack2 res of
        Inl e \<Rightarrow> (Inl e, fs)
      | Inr (height, width) \<Rightarrow>
     (let title_path = path_join output_path ''title_screen.mp4'' in
      case dict_get config ''fps'' of
        Inl e \<Rightarrow> (Inl e, fs)
      | Inr fps \<Rightarrow>
     (case VideoWriter fps (width, height) of
        Inl e \<Rightarrow> (Inl e, fs)
      | Inr out \<Rightarrow>
     (case title_range fps of
        Inl e \<Rightarrow> (Inl e, fs(title_path \<mapsto> VideoFile out))
      | Inr frames \<Rightarrow>
          (case write_frames (\<lambda>i. create_animated_frame c config (int i) title description)
                  frames out of
             (Some e, out') \<Rightarrow> (Inl e, fs(title_path \<mapsto> VideoFile out'))
           | (None, out') \<Rightarrow> (Inr title_path, fs(title_path \<mapsto> VideoFile out'))))))))"

section \<open>Media assembly\<close>













section \<open>Frame sizes and sample collaborators\<close>

text \<open>The size of an image as OpenCV counts it: \<open>(width, height)\<close>.\<close>

definition frame_size :: "image \<Rightarrow> int \<times> int" where
  "frame_size img = (int (im_cols img), int (im_rows img))"

text \<open>
  Simple collaborators for running the model on concrete inputs: every colour is black,
  drawing text leaves the buffer as it is, every canvas is one white pixel, and resizing
  gives a white raster.
\<close>

definition sample_collaborators :: collaborators where
  "sample_collaborators =
     \<lparr>to_rgb = (\<lambda>v. Inr (0, 0, 0)),
      put_text = (\<lambda>img text org fontScale color thickness. im_buf img),
      canvas_rgb = (\<lambda>fig. \<lparr>im_rows = 1, im_cols = 1, im_buf = [255, 255, 255]\<rparr>),
      resample = (\<lambda>img dsize. replicate (fst dsize * snd dsize * 3) 255)\<rparr>"

text \<open>Sample inputs: a three-point series and a full configuration document.\<close>

definition sample_data :: chart_data where
  "sample_data = [''years'' \<mapsto> [2000, 2001, 2002], ''values'' \<mapsto> [50, 52, 51]]"

definition sample_document :: pydict where
  "sample_document =
     [''resolution'' \<mapsto> PList [PInt 1920, PInt 1080],
      ''fps'' \<mapsto> PInt 30,
      ''chart_types'' \<mapsto> PList [PStr ''bar''],
      ''colors'' \<mapsto> PDict [''title_bg'' \<mapsto> PStr ''#000000''],
      ''voice'' \<mapsto> PDict [''rate'' \<mapsto> PInt 160]]"









section \<open>Properties of configuration loading\<close>

lemma dom_default_config:
  "dom default_config = {''resolution'', ''fps'', ''chart_types'', ''colors'', ''voice''}"
  by (auto simp: default_config_def split: if_splits)

lemma map_add_covering: "dom m \<subseteq> dom d \<Longrightarrow> m ++ d = d"
proof (rule ext)
  fix k
  assume sub: "dom m \<subseteq> dom d"
  show "(m ++ d) k = d k"
  proof (cases "d k")
    case None
    with sub have "m k = None" by auto
    with None show ?thesis by (simp add: map_add_def)
  next
    case (Some v)
    then show ?thesis by (simp add: map_add_def)
  qed
qed

text \<open>
  C10. When \<^verbatim>\<open>config_path\<close> is \<^verbatim>\<open>None\<close> or names a path that does not exist,
  \<^verbatim>\<open>_load_config\<close> raises nothing and returns exactly the built-in defaults.
\<close>

theorem load_config_missing_is_default:
  assumes "config_path = None \<or> (\<exists>p. config_path = Some p \<and> fs p = None)"
  shows "load_config fs config_path = Inr default_config"
  using assms by (auto simp: load_config_def)

theorem load_config_missing_is_default_witness:
  "load_config Map.empty None = Inr default_config
   \<and> load_config [''output'' \<mapsto> Directory] (Some ''settings.json'') = Inr default_config"
proof -
  have a: "load_config Map.empty None = Inr default_config"
    using load_config_missing_is_default [of None Map.empty] by simp
  have b: "load_config [''output'' \<mapsto> Directory] (Some ''settings.json'') = Inr default_config"
    using load_config_missing_is_default
      [of "Some ''settings.json''" "[''output'' \<mapsto> Directory]"] by simp
  from a b show ?thesis by simp
qed

text \<open>
  C9. A configuration document that is a JSON object with a value for every recognised
  top-level key (\<^verbatim>\<open>resolution\<close>, \<^verbatim>\<open>fps\<close>, \<^verbatim>\<open>chart_types\<close>, \<^verbatim>\<open>colors\<close>,
  \<^verbatim>\<open>voice\<close>) loads to exactly the document: every key has the supplied value and no
  default remains anywhere in the result.
\<close>

theorem load_config_roundtrip:
  assumes "fs p = Some (JsonFile (PDict doc))"
    and "p \<noteq> []"
    and "{''resolution'', ''fps'', ''chart_types'', ''colors'', ''voice''} \<subseteq> dom doc"
  shows "load_config fs (Some p) = Inr doc"
proof -
  from assms(3) have "dom default_config \<subseteq> dom doc"
    by (simp only: dom_default_config)
  then have "default_config ++ doc = doc"
    by (rule map_add_covering)
  with assms(1,2) show ?thesis
    by (simp add: load_config_def)
qed

section \<open>Properties of the transition\<close>

lemma cvRound_of_int: "cvRound (of_int n) = n"
  by (simp add: cvRound_def)

lemma saturate_u8_unat: "saturate_u8 (int (unat p)) = p"
proof -
  have "uint p < 2 ^ 8" using uint_lt2p [of p] by simp
  moreover have "0 \<le> uint p" by simp
  ultimately have "max 0 (min 255 (uint p)) = uint p" by (simp add: min_def max_def)
  then show ?thesis by (simp add: saturate_u8_def)
qed

lemma blend_self: "blend alpha (1 - alpha) 0 p p = p"
proof -
  have "of_nat (unat p) * alpha + of_nat (unat p) * (1 - alpha) + 0 = (of_int (int (unat p)) :: rat)"
    by (simp add: algebra_simps)
  then show ?thesis
    unfolding blend_def by (simp only: cvRound_of_int saturate_u8_unat)
qed

lemma map2_same: "map2 f xs xs = map (\<lambda>x. f x x) xs"
  by (induction xs) simp_all

lemma apply_transition_id: "apply_transition img n = Inr img"
  by (simp add: apply_transition_def addWeighted_def Let_def map2_same blend_self)

section \<open>Properties of the chart animation\<close>

lemma write_frames_all:
  "(\<And>i. i \<in> set ks \<Longrightarrow> body i = Inr (f i)) \<Longrightarrow>
   write_frames body ks out = (None, out\<lparr>seg_frames := seg_frames out @ map f ks\<rparr>)"
proof (induction ks arbitrary: out)
  case Nil
  then show ?case by simp
next
  case (Cons k ks)
  then show ?case by (simp add: writer_write_def)
qed

lemma drawable_same: "drawable chart_type n n"
  by (simp add: drawable_def)

lemma render_window_ok:
  assumes fig: "create_chart_figure config = Inr ax"
    and len: "length x = length y" and ne: "x \<noteq> []"
    and dims: "0 < w" "0 < h"
    and canvas: "\<And>fig. 0 < im_rows (canvas_rgb c fig) \<and> 0 < im_cols (canvas_rgb c fig)"
  shows "\<exists>img. render_window c config chart_type (w, h) x y = Inr img
           \<and> im_rows img = nat h \<and> im_cols img = nat w"
proof -
  from len ne have ney: "y \<noteq> []" by auto
  obtain fig where p: "plot_data ax x y chart_type = Inr fig"
    using len ne ney by (simp add: plot_data_def drawable_same)
  have shape: "im_rows (figure_to_image c fig) \<noteq> 0 \<and> im_cols (figure_to_image c fig) \<noteq> 0"
    using canvas [of fig] by (simp add: figure_to_image_def Let_def)
  show ?thesis
    using fig p shape dims by (simp add: render_window_def cv2_resize_def)
qed

lemma chart_frame_of_window:
  "render_window c config chart_type dsize (take k years) (take k vals) = Inr img
   \<Longrightarrow> chart_frame c config years vals chart_type dsize k = Inr img"
  by (simp add: chart_frame_def apply_transition_id)

lemma chart_animation_result:
  assumes valid: "validate_chart_type config chart_type = Inr ()"
    and years: "data ''years'' = Some years"
    and vals: "data ''values'' = Some vals"
    and len: "length vals = length years"
    and res: "dict_get config ''resolution'' = Inr res"
    and unp: "unpack2 res = Inr (PInt h, PInt w)"
    and dims: "0 < h" "0 < w"
    and fps: "dict_get config ''fps'' = Inr fps"
    and num: "as_number fps = Some f"
    and fig: "create_chart_figure config = Inr ax"
    and canvas: "\<And>fig. 0 < im_rows (canvas_rgb c fig) \<and> 0 < im_cols (canvas_rgb c fig)"
  shows "\<exists>frames.
           generate_chart_animation c config fs data output_path chart_type =
             (Inr (path_join output_path ''chart_animation.mp4''),
              fs(path_join output_path ''chart_animation.mp4'' \<mapsto>
                 VideoFile \<lparr>seg_fps = f, seg_size = (w, h), seg_frames = frames\<rparr>))
         \<and> length frames = length years
         \<and> (\<forall>k < length years.
               render_window c config chart_type (w, h) (take (Suc k) years) (take (Suc k) vals)
                 = Inr (frames ! k)
               \<and> frame_size (frames ! k) = (w, h))"
proof -
  let ?body = "chart_frame c config years vals chart_type (w, h)"
  let ?f = "\<lambda>k. projr (?body k)"
  let ?ks = "[1..<length years + 1]"
  have win: "\<exists>img. render_window c config chart_type (w, h) (take k years) (take k vals) = Inr img
                \<and> im_rows img = nat h \<and> im_cols img = nat w"
    if "1 \<le> k" "k \<le> length years" for k
  proof (rule render_window_ok [OF fig _ _ dims(2) dims(1) canvas])
    show "length (take k years) = length (take k vals)" using len by simp
    show "take k years \<noteq> []" using that by auto
  qed
  have body: "?body k = Inr (?f k)" if "k \<in> set ?ks" for k
  proof -
    from that have "1 \<le> k" "k \<le> length years" by auto
    from win [OF this] obtain img where
      "render_window c config chart_type (w, h) (take k years) (take k vals) = Inr img" by blast
    then have "?body k = Inr img" by (rule chart_frame_of_window)
    then show ?thesis by simp
  qed
  let ?out = "\<lparr>seg_fps = f, seg_size = (w, h), seg_frames = []\<rparr>"
  have vw: "VideoWriter fps (PInt w, PInt h) = Inr ?out"
    using num by (simp add: VideoWriter_def as_int_def)
  have loop: "write_frames ?body ?ks ?out = (None, ?out\<lparr>seg_frames := seg_frames ?out @ map ?f ?ks\<rparr>)"
    by (rule write_frames_all) (rule body)
  have run: "generate_chart_animation c config fs data output_path chart_type =
             (Inr (path_join output_path ''chart_animation.mp4''),
              fs(path_join output_path ''chart_animation.mp4'' \<mapsto>
                 VideoFile \<lparr>seg_fps = f, seg_size = (w, h), seg_frames = map ?f ?ks\<rparr>))"
    unfolding generate_chart_animation_def
    using valid years vals res unp fps vw loop by (simp add: Let_def)
  have nth: "render_window c config chart_type (w, h) (take (Suc k) years) (take (Suc k) vals)
                 = Inr (map ?f ?ks ! k) \<and> frame_size (map ?f ?ks ! k) = (w, h)"
    if "k < length years" for k
  proof -
    from that have k: "1 \<le> Suc k" "Suc k \<le> length years" by auto
    from win [OF k] obtain img where
      w: "render_window c config chart_type (w, h) (take (Suc k) years) (take (Suc k) vals) = Inr img"
      and sh: "im_rows img = nat h" "im_cols img = nat w" by blast
    from w have "?body (Suc k) = Inr img" by (rule chart_frame_of_window)
    then have "?f (Suc k) = img" by simp
    moreover have "map ?f ?ks ! k = ?f (1 + k)"
      by (rule nth_map_upt) (use that in simp)
    ultimately show ?thesis using w sh dims by (simp add: frame_size_def)
  qed
  have n: "length (map ?f ?ks) = length years" by (simp del: upt_Suc)
  have all: "\<forall>k < length years.
               render_window c config chart_type (w, h) (take (Suc k) years) (take (Suc k) vals)
                 = Inr (map ?f ?ks ! k)
               \<and> frame_size (map ?f ?ks ! k) = (w, h)"
    using nth by blast
  from run n all show ?thesis by blast
qed

section \<open>Properties of the title screen\<close>

lemma unpack2_ints:
  "unpack2 res = Inr (PInt a, PInt b) \<Longrightarrow> res = PList [PInt a, PInt b] \<or> res = PTuple [PInt a, PInt b]"
  by (auto simp: unpack2_def split: pyval.splits list.splits)

lemma title_frame_ok:
  assumes res: "dict_get config ''resolution'' = Inr res"
    and unp: "unpack2 res = Inr (PInt h, PInt w)"
    and dims: "0 \<le> h" "0 \<le> w"
    and colors: "dict_get config ''colors'' = Inr colors"
    and bg: "subscript_key colors ''title_bg'' = Inr bg"
    and rgb: "to_rgb c bg = Inr rgb"
  shows "\<exists>img. create_animated_frame c config i title description = Inr img
           \<and> im_rows img = nat w \<and> im_cols img = nat h"
proof -
  from unpack2_ints [OF unp]
  have idx: "subscript_index res 1 = Inr (PInt w) \<and> subscript_index res 0 = Inr (PInt h)"
    by (auto simp: subscript_index_def)
  have z: "np_zeros (PInt w) (PInt h) =
             Inr \<lparr>im_rows = nat w, im_cols = nat h, im_buf = replicate (nat w * nat h * 3) 0\<rparr>"
    using dims by (simp add: np_zeros_def as_index_def)
  obtain r g b where rgb': "rgb = (r, g, b)" by (cases rgb) auto
  show ?thesis
    unfolding create_animated_frame_def
    using res idx z colors bg rgb rgb'
    by (simp add: Let_def fill_def cv2_putText_def)
qed

lemma title_screen_result:
  assumes res: "dict_get config ''resolution'' = Inr res"
    and unp: "unpack2 res = Inr (PInt h, PInt w)"
    and dims: "0 \<le> h" "0 \<le> w"
    and fps: "dict_get config ''fps'' = Inr (PInt n)"
    and colors: "dict_get config ''colors'' = Inr colors"
    and bg: "subscript_key colors ''title_bg'' = Inr bg"
    and rgb: "to_rgb c bg = Inr rgb"
  shows "\<exists>frames.
           create_title_screen c config fs title description output_path =
             (Inr (path_join output_path ''title_screen.mp4''),
              fs(path_join output_path ''title_screen.mp4'' \<mapsto>
                 VideoFile \<lparr>seg_fps = of_int n, seg_size = (w, h), seg_frames = frames\<rparr>))
         \<and> length frames = nat (3 * n)
         \<and> (\<forall>i < nat (3 * n).
               create_animated_frame c config (int i) title description = Inr (frames ! i)
               \<and> frame_size (frames ! i) = (h, w))"
proof -
  let ?body = "\<lambda>i. create_animated_frame c config (int i) title description"
  let ?f = "\<lambda>i. projr (?body i)"
  let ?ks = "[0..<nat (3 * n)]"
  let ?out = "\<lparr>seg_fps = of_int n, seg_size = (w, h), seg_frames = []\<rparr>"
  note ok = title_frame_ok [OF res unp dims colors bg rgb]
  have body: "?body i = Inr (?f i)" for i
    using ok [of "int i" title description] by auto
  have vw: "VideoWriter (PInt n) (PInt w, PInt h) = Inr ?out"
    by (simp add: VideoWriter_def as_int_def as_number_def)
  have loop: "write_frames ?body ?ks ?out = (None, ?out\<lparr>seg_frames := seg_frames ?out @ map ?f ?ks\<rparr>)"
    by (rule write_frames_all) (rule body)
  have run: "create_title_screen c config fs title description output_path =
             (Inr (path_join output_path ''title_screen.mp4''),
              fs(path_join output_path ''title_screen.mp4'' \<mapsto>
                 VideoFile \<lparr>seg_fps = of_int n, seg_size = (w, h), seg_frames = map ?f ?ks\<rparr>))"
    unfolding create_title_screen_def
    using res unp fps vw loop by (simp add: Let_def title_range_def)
  have n: "length (map ?f ?ks) = nat (3 * n)" by simp
  have nth: "?body i = Inr (map ?f ?ks ! i) \<and> frame_size (map ?f ?ks ! i) = (h, w)"
    if "i < nat (3 * n)" for i
  proof -
    from ok [of "int i" title description] obtain img where
      b: "?body i = Inr img" and sh: "im_rows img = nat w" "im_cols img = nat h" by blast
    have "map ?f ?ks ! i = ?f i" using that by simp
    with b sh dims show ?thesis by (simp add: frame_size_def)
  qed
  then have all: "\<forall>i < nat (3 * n). ?body i = Inr (map ?f ?ks ! i)
                     \<and> frame_size (map ?f ?ks ! i) = (h, w)"
    by blast
  from run n all show ?thesis by blast
qed

lemma text_offset_nonneg: "0 \<le> i \<Longrightarrow> text_offset i = i div 3"
proof -
  assume "0 \<le> i"
  have "\<lfloor>(of_int i :: rat) / of_int 3\<rfloor> = i div 3" by (rule floor_divide_of_int_eq)
  with \<open>0 \<le> i\<close> show ?thesis by (simp add: text_offset_def py_int_def)
qed

lemma visible_title_nonneg: "0 \<le> i \<Longrightarrow> visible_title title i = take (nat (i div 3)) title"
  by (simp add: visible_title_def slice_to_def text_offset_nonneg)

lemma take_all_iff_len: "take k xs = xs \<longleftrightarrow> length xs \<le> k"
  by (metis take_all_iff)

section \<open>The claims on the transition and the validation\<close>


lemma str_member: "PStr s \<in> set (map PStr kinds) \<longleftrightarrow> s \<in> set kinds"
  by auto

lemma joinable_strs: "joinable (PList (map PStr kinds))"
  by (induction kinds) (simp_all add: joinable_def is_str_def)

text \<open>
  C3. With a configured list of chart kinds, a chart type outside the list makes
  \<^verbatim>\<open>generate_chart_animation\<close> raise the invalid-chart-type error whatever the data,
  the collaborators and the output directory are, and leaves the file system as it was;
  a chart type in the list passes the validation.
\<close>

theorem invalid_chart_type_rejected_first:
  assumes "config ''chart_types'' = Some (PList (map PStr kinds))"
  shows "(chart_type \<notin> set kinds \<longrightarrow>
            generate_chart_animation c config fs data output_path chart_type
              = (Inl (ValueError ''Invalid chart type''), fs))
       \<and> (chart_type \<in> set kinds \<longrightarrow> validate_chart_type config chart_type = Inr ())"
proof -
  have v: "validate_chart_type config chart_type =
             (if chart_type \<in> set kinds then Inr () else Inl (ValueError ''Invalid chart type''))"
    using assms joinable_strs [of kinds]
    by (simp add: validate_chart_type_def dict_get_def py_in_def str_member del: set_map)
  then show ?thesis
    by (simp add: generate_chart_animation_def)
qed

theorem invalid_chart_type_rejected_first_witness:
  "generate_chart_animation sample_collaborators default_config Map.empty sample_data ''output'' ''pie''
     = (Inl (ValueError ''Invalid chart type''), Map.empty)
   \<and> validate_chart_type default_config ''bar'' = Inr ()"
proof -
  have k: "default_config ''chart_types'' = Some (PList (map PStr [''line'', ''bar'', ''scatter'']))"
    by (simp add: default_config_def)
  have a: "''pie'' \<notin> set [''line'', ''bar'', ''scatter'']" by simp
  have b: "''bar'' \<in> set [''line'', ''bar'', ''scatter'']" by simp
  from invalid_chart_type_rejected_first
         [where config = default_config and kinds = "[''line'', ''bar'', ''scatter'']"
            and chart_type = "''pie''" and c = sample_collaborators and fs = Map.empty
            and data = sample_data and output_path = "''output''"] k a
  have 1: "generate_chart_animation sample_collaborators default_config Map.empty sample_data ''output'' ''pie''
     = (Inl (ValueError ''Invalid chart type''), Map.empty)" by blast
  from invalid_chart_type_rejected_first
         [where config = default_config and kinds = "[''line'', ''bar'', ''scatter'']"
            and chart_type = "''bar''"] k b
  have 2: "validate_chart_type default_config ''bar'' = Inr ()" by blast
  from 1 2 show ?thesis by simp
qed

section \<open>The claims on whole runs\<close>


text \<open>The default configuration and the sample inputs, read as the code reads them.\<close>

lemma sample_canvas:
  "0 < im_rows (canvas_rgb sample_collaborators fig) \<and> 0 < im_cols (canvas_rgb sample_collaborators fig)"
  by (simp add: sample_collaborators_def)

lemma default_resolution:
  "dict_get default_config ''resolution'' = Inr (PTuple [PInt 1280, PInt 720])
   \<and> unpack2 (PTuple [PInt 1280, PInt 720]) = Inr (PInt 1280, PInt 720)"
  by (simp add: dict_get_def default_config_def unpack2_def)

lemma default_fps: "dict_get default_config ''fps'' = Inr (PInt 24)"
  by (simp add: dict_get_def default_config_def)

lemma default_chart_figure:
  "create_chart_figure default_config =
     Inr \<lparr>fig_facecolor = PStr ''#ecf0f1'', fig_marks = [], fig_xlim = None, fig_ylim = None,
          fig_labels = []\<rparr>"
  by (simp add: create_chart_figure_def dict_get_def default_config_def subscript_key_def)

lemma default_title_bg:
  "dict_get default_config ''colors'' =
     Inr (PDict [''title_bg'' \<mapsto> PStr ''#2c3e50'', ''chart_bg'' \<mapsto> PStr ''#ecf0f1'',
                 ''text'' \<mapsto> PStr ''#ffffff''])
   \<and> subscript_key (PDict [''title_bg'' \<mapsto> PStr ''#2c3e50'', ''chart_bg'' \<mapsto> PStr ''#ecf0f1'',
                 ''text'' \<mapsto> PStr ''#ffffff'']) ''title_bg'' = Inr (PStr ''#2c3e50'')"
  by (simp add: dict_get_def default_config_def subscript_key_def)

lemma default_line_valid: "validate_chart_type default_config ''line'' = Inr ()"
  by (simp add: validate_chart_type_def dict_get_def default_config_def py_in_def)

lemma sample_data_series:
  "sample_data ''years'' = Some [2000, 2001, 2002] \<and> sample_data ''values'' = Some [50, 52, 51]"
  by (simp add: sample_data_def)



lemma sample_to_rgb: "to_rgb sample_collaborators bg = Inr (0, 0, 0)"
  by (simp add: sample_collaborators_def)


lemma map_constant:
  "length xs = n \<Longrightarrow> (\<forall>i < n. f (xs ! i) = v) \<Longrightarrow> map f xs = replicate n v"
  by (rule nth_equalityI) simp_all

text \<open>
  C1. The claim is that title frames and chart frames have the same width and height,
  the configured one. With the default resolution \<open>(1280, 720)\<close> the code does otherwise:
  both writers are opened for frames 720 wide and 1280 high, every chart frame is
  720 wide and 1280 high, and every title frame is 1280 wide and 720 high.
\<close>

theorem default_config_frame_sizes_disagree:
  "\<exists>tframes cframes.
     create_title_screen sample_collaborators default_config Map.empty
         ''Economic Growth Analysis'' ''2000-2020 GDP Trends'' ''output'' =
       (Inr ''output/title_screen.mp4'',
        [''output/title_screen.mp4'' \<mapsto>
           VideoFile \<lparr>seg_fps = 24, seg_size = (720, 1280), seg_frames = tframes\<rparr>])
     \<and> generate_chart_animation sample_collaborators default_config Map.empty sample_data
         ''output'' ''line'' =
       (Inr ''output/chart_animation.mp4'',
        [''output/chart_animation.mp4'' \<mapsto>
           VideoFile \<lparr>seg_fps = 24, seg_size = (720, 1280), seg_frames = cframes\<rparr>])
     \<and> map frame_size tframes = replicate 72 (1280, 720)
     \<and> map frame_size cframes = replicate 3 (720, 1280)"
proof -
  have pt: "path_join ''output'' ''title_screen.mp4'' = ''output/title_screen.mp4''"
    and pc: "path_join ''output'' ''chart_animation.mp4'' = ''output/chart_animation.mp4''"
    by (simp_all add: path_join_def)
  from title_screen_result
    [where config = default_config and res = "PTuple [PInt 1280, PInt 720]"
       and h = 1280 and w = 720 and n = 24 and c = sample_collaborators
       and bg = "PStr ''#2c3e50''" and rgb = "(0, 0, 0)"
       and fs = Map.empty and title = "''Economic Growth Analysis''"
       and description = "''2000-2020 GDP Trends''" and output_path = "''output''",
     OF conjunct1 [OF default_resolution] conjunct2 [OF default_resolution] _ _ default_fps
       conjunct1 [OF default_title_bg] conjunct2 [OF default_title_bg] sample_to_rgb]
  obtain tframes where
    t: "create_title_screen sample_collaborators default_config Map.empty
         ''Economic Growth Analysis'' ''2000-2020 GDP Trends'' ''output'' =
       (Inr (path_join ''output'' ''title_screen.mp4''),
        [path_join ''output'' ''title_screen.mp4'' \<mapsto>
           VideoFile \<lparr>seg_fps = 24, seg_size = (720, 1280), seg_frames = tframes\<rparr>])"
    and tn: "length tframes = 72"
    and ts: "\<forall>i < 72. frame_size (tframes ! i) = (1280, 720)"
    by auto
  from chart_animation_result
    [where config = default_config and chart_type = "''line''" and data = sample_data
       and years = "[2000, 2001, 2002]" and vals = "[50, 52, 51]"
       and res = "PTuple [PInt 1280, PInt 720]" and h = 1280 and w = 720
       and fps = "PInt 24" and f = 24 and c = sample_collaborators
       and fs = Map.empty and output_path = "''output''",
     OF default_line_valid conjunct1 [OF sample_data_series] conjunct2 [OF sample_data_series]
       _ conjunct1 [OF default_resolution] conjunct2 [OF default_resolution] _ _ default_fps _
       default_chart_figure sample_canvas]
  obtain cframes where
    c: "generate_chart_animation sample_collaborators default_config Map.empty sample_data
            ''output'' ''line'' =
          (Inr (path_join ''output'' ''chart_animation.mp4''),
           [path_join ''output'' ''chart_animation.mp4'' \<mapsto>
              VideoFile \<lparr>seg_fps = 24, seg_size = (720, 1280), seg_frames = cframes\<rparr>])"
    and cn: "length cframes = 3"
    and cs: "\<forall>k < 3. frame_size (cframes ! k) = (720, 1280)"
    by (auto simp: as_number_def)
  have "map frame_size tframes = replicate 72 (1280, 720)"
    using tn ts by (rule map_constant)
  moreover have "map frame_size cframes = replicate 3 (720, 1280)"
    using cn cs by (rule map_constant)
  ultimately show ?thesis
    using t c pt pc by (intro exI [of _ tframes] exI [of _ cframes]) simp
qed

text \<open>
  At 24 frames per second the title sequence has the frames 0 to 71. Of the 24 characters
  of the title of \<^verbatim>\<open>main\<close>, frame 24 (one third of the sequence) shows 8, and the last
  frame still lacks one: the whole title is never visible.
\<close>

theorem title_not_revealed_counterexample:
  "title_range (PInt 24) = Inr [0..<72]
   \<and> length ''Economic Growth Analysis'' = 24
   \<and> visible_title ''Economic Growth Analysis'' 24 = ''Economic''
   \<and> visible_title ''Economic Growth Analysis'' 71 = ''Economic Growth Analysi''
   \<and> visible_title ''Economic Growth Analysis'' 71 \<noteq> ''Economic Growth Analysis''"
  by (simp add: title_range_def visible_title_nonneg)

text \<open>
  C8, as amended. At frame \<open>i \<ge> 0\<close> the title frame shows the first
  \<open>min (length title) (i div 3)\<close> characters: the count never decreases and grows by one
  character every three frames, whatever the frame rate and the duration are. The whole
  title is visible exactly from frame \<open>3 * length title\<close> on, so the last frame
  \<open>3 * fps - 1\<close> of the sequence shows it exactly when the title is shorter than \<open>fps\<close>
  characters.
\<close>

theorem visible_title_fixed_rate:
  assumes "0 \<le> i" and "i \<le> j" and "0 < n"
  shows "visible_title title i = take (nat (i div 3)) title
       \<and> length (visible_title title i) = min (length title) (nat (i div 3))
       \<and> length (visible_title title i) \<le> length (visible_title title j)
       \<and> (visible_title title i = title \<longleftrightarrow> 3 * int (length title) \<le> i)
       \<and> (visible_title title (3 * n - 1) = title \<longleftrightarrow> int (length title) < n)"
proof -
  have full: "(visible_title title k = title) = (3 * int (length title) \<le> k)" if "0 \<le> k" for k
  proof -
    have "(visible_title title k = title) = (length title \<le> nat (k div 3))"
      using that by (simp add: visible_title_nonneg take_all_iff_len)
    also have "\<dots> = (3 * int (length title) \<le> k)"
      using that by auto
    finally show ?thesis .
  qed
  have j: "0 \<le> j" using assms(1,2) by simp
  have mono: "nat (i div 3) \<le> nat (j div 3)"
    using assms(1,2) by (simp add: zdiv_mono1)
  have last: "(visible_title title (3 * n - 1) = title) = (int (length title) < n)"
    using full [of "3 * n - 1"] assms(3) by auto
  have c1: "visible_title title i = take (nat (i div 3)) title"
    using assms(1) by (rule visible_title_nonneg)
  have c2: "length (visible_title title i) = min (length title) (nat (i div 3))"
    by (simp add: c1)
  have "min (length title) (nat (i div 3)) \<le> min (length title) (nat (j div 3))"
    using mono by (intro min.mono) simp_all
  then have c3: "length (visible_title title i) \<le> length (visible_title title j)"
    by (simp add: c2 visible_title_nonneg [OF j])
  from c1 c2 c3 full [OF assms(1)] last show ?thesis
    by (intro conjI)
qed

theorem visible_title_fixed_rate_witness:
  "visible_title ''Economic Growth Analysis'' 24 = take 8 ''Economic Growth Analysis''
   \<and> length (visible_title ''Economic Growth Analysis'' 24) = 8
   \<and> length (visible_title ''Economic Growth Analysis'' 24)
       \<le> length (visible_title ''Economic Growth Analysis'' 71)
   \<and> visible_title ''Economic Growth Analysis'' 24 \<noteq> ''Economic Growth Analysis''
   \<and> visible_title ''Economic Growth Analysis'' 71 \<noteq> ''Economic Growth Analysis''"
  using visible_title_fixed_rate [of 24 71 24 "''Economic Growth Analysis''"]
  by simp













text \<open>
  A full document that sets only \<^verbatim>\<open>voice.rate\<close> inside \<^verbatim>\<open>voice\<close>: the loaded
  configuration is the document, with no default inside \<^verbatim>\<open>voice\<close>.
\<close>

theorem load_config_roundtrip_witness:
  "load_config [''settings.json'' \<mapsto> JsonFile (PDict sample_document)] (Some ''settings.json'')
     = Inr sample_document
   \<and> sample_document ''voice'' = Some (PDict [''rate'' \<mapsto> PInt 160])"
proof -
  have "load_config [''settings.json'' \<mapsto> JsonFile (PDict sample_document)] (Some ''settings.json'')
     = Inr sample_document"
    by (rule load_config_roundtrip) (simp_all add: sample_document_def)
  then show ?thesis by (simp add: sample_document_def)
qed

end
